theory Spec2Isabelle
  imports Complex_Main
begin

section \<open>Python values and the operations the parser applies to them\<close>

text \<open>
  The values \<open>json.loads\<close> produces, which are also the values the parser puts into the
  rows it hands to the database. A float is carried as the number it denotes. A dict is
  an association list read with \<open>map_of\<close>, in which the decoder puts each key once.
\<close>

datatype pyval =
    PNone
  | PBool bool
  | PInt int
  | PFloat real
  | PStr string
  | PList "pyval list"
  | PDict "(string \<times> pyval) list"

type_synonym pydict = "(string \<times> pyval) list"

datatype exn = KeyError | TypeError | AttributeError | IndexError

datatype outcome = Returned | Raised exn

text \<open>\<open>d.get(k)\<close> on a dict: the value, or None when the key is absent.\<close>

definition dict_get :: "pydict \<Rightarrow> string \<Rightarrow> pyval" where
  "dict_get d k = (case map_of d k of None \<Rightarrow> PNone | Some v \<Rightarrow> v)"

text \<open>\<open>d.get(k, default)\<close>: the default only when the key is absent (an explicit null stays None).\<close>

definition dict_get_default :: "pydict \<Rightarrow> string \<Rightarrow> pyval \<Rightarrow> pyval" where
  "dict_get_default d k dflt = (case map_of d k of None \<Rightarrow> dflt | Some v \<Rightarrow> v)"

text \<open>\<open>for x in v\<close>: a list gives its elements, a string its characters, a dict its keys;
  None, booleans and numbers are not iterable.\<close>

fun iterate :: "pyval \<Rightarrow> exn + pyval list" where
  "iterate (PList xs) = Inr xs"
| "iterate (PStr s) = Inr (map (\<lambda>c. PStr [c]) s)"
| "iterate (PDict d) = Inr (map (\<lambda>kv. PStr (fst kv)) d)"
| "iterate PNone = Inl TypeError"
| "iterate (PBool b) = Inl TypeError"
| "iterate (PInt n) = Inl TypeError"
| "iterate (PFloat r) = Inl TypeError"

text \<open>Lists and dicts are unhashable: they cannot be dict keys or set members.\<close>

fun hashable :: "pyval \<Rightarrow> bool" where
  "hashable (PList xs) = False"
| "hashable (PDict d) = False"
| "hashable PNone = True"
| "hashable (PBool b) = True"
| "hashable (PInt n) = True"
| "hashable (PFloat r) = True"
| "hashable (PStr s) = True"

text \<open>\<open>v == 0\<close>: true for the integer 0, the float 0.0 and False.\<close>

fun eq_zero :: "pyval \<Rightarrow> bool" where
  "eq_zero (PInt n) = (n = 0)"
| "eq_zero (PFloat r) = (r = 0)"
| "eq_zero (PBool b) = (\<not> b)"
| "eq_zero PNone = False"
| "eq_zero (PStr s) = False"
| "eq_zero (PList xs) = False"
| "eq_zero (PDict d) = False"

text \<open>Truthiness, and \<open>v or w\<close>.\<close>

fun truthy :: "pyval \<Rightarrow> bool" where
  "truthy PNone = False"
| "truthy (PBool b) = b"
| "truthy (PInt n) = (n \<noteq> 0)"
| "truthy (PFloat r) = (r \<noteq> 0)"
| "truthy (PStr s) = (s \<noteq> [])"
| "truthy (PList xs) = (xs \<noteq> [])"
| "truthy (PDict d) = (d \<noteq> [])"

definition py_or :: "pyval \<Rightarrow> pyval \<Rightarrow> pyval" where
  "py_or v w = (if truthy v then v else w)"

text \<open>\<open>v[0]\<close>: the first element of a list or string; IndexError when it is empty,
  KeyError on a dict (whose keys are strings here), TypeError otherwise.\<close>

fun index0 :: "pyval \<Rightarrow> exn + pyval" where
  "index0 (PList []) = Inl IndexError"
| "index0 (PList (x # xs)) = Inr x"
| "index0 (PStr []) = Inl IndexError"
| "index0 (PStr (c # s)) = Inr (PStr [c])"
| "index0 (PDict d) = Inl KeyError"
| "index0 PNone = Inl TypeError"
| "index0 (PBool b) = Inl TypeError"
| "index0 (PInt n) = Inl TypeError"
| "index0 (PFloat r) = Inl TypeError"

section \<open>The database the parser writes to\<close>

text \<open>
  The data argument of \<open>mdbl.insert\<close>: a dict for every table but \<open>heartbeat\<close>, for which
  \<open>_parse_heartbeat\<close> builds a set of (key, value) tuples.
\<close>

datatype row_data = DictRow pydict | SetRow "(string \<times> pyval) set"

text \<open>
  The storage engine is an external library. Its operations are parameters of the model:
  \<open>mdbl_insert\<close> is \<open>mdbl.insert(table, data, client=db)\<close>;
  \<open>select_variable_id db name\<close> is the list \<open>r['variable_id']\<close> that
  \<open>SELECT variable_id FROM mal_variable WHERE name=?\<close> returns;
  \<open>select_type_id db name\<close> is the list \<open>r['type_id']\<close> that
  \<open>SELECT type_id FROM mal_type WHERE name=?\<close> returns;
  \<open>execute_query db q\<close> is what \<open>DatabaseManager.execute_query\<close> returns (the fetched
  rows, or None when the query failed).
\<close>

record 'db sink =
  mdbl_insert :: "string \<Rightarrow> row_data \<Rightarrow> 'db \<Rightarrow> 'db"
  select_variable_id :: "'db \<Rightarrow> pyval \<Rightarrow> pyval list"
  select_type_id :: "'db \<Rightarrow> pyval \<Rightarrow> pyval list"
  execute_query :: "'db \<Rightarrow> string \<Rightarrow> pyval"

section \<open>ProfilerObjectParser\<close>

datatype level = WARNING | ERROR

text \<open>
  The four counters and the database handle of the parser object, together with the two
  things a call leaves behind outside it: the insert calls made so far, in order
  (\<open>emitted\<close>), and the records sent to the logger (\<open>logged\<close>: level, message template,
  arguments).
\<close>

record 'db parser =
  event_id :: int
  heartbeat_id :: int
  execution_id :: int
  variable_id :: int
  db :: 'db
  emitted :: "(string \<times> row_data) list"
  logged :: "(level \<times> string \<times> pyval list) list"

text \<open>\<open>__init__(self, db)\<close>: every counter starts at 0.\<close>

definition init :: "'db \<Rightarrow> 'db parser" where
  "init d = \<lparr> event_id = 0, heartbeat_id = 0, execution_id = 0, variable_id = 0,
              db = d, emitted = [], logged = [] \<rparr>"

text \<open>\<open>_states = {'start': 0, 'done': 1, 'pause': 2}\<close>\<close>

definition states :: "(string \<times> int) list" where
  "states = [(''start'', 0), (''done'', 1), (''pause'', 2)]"

text \<open>\<open>self._states.get(v)\<close>: hashing an unhashable key raises TypeError.\<close>

definition states_get :: "pyval \<Rightarrow> exn + pyval" where
  "states_get v =
     (if hashable v then
        Inr (case v of
               PStr s \<Rightarrow> (case map_of states s of None \<Rightarrow> PNone | Some n \<Rightarrow> PInt n)
             | _ \<Rightarrow> PNone)
      else Inl TypeError)"

definition emit :: "'db sink \<Rightarrow> string \<Rightarrow> row_data \<Rightarrow> 'db parser \<Rightarrow> 'db parser" where
  "emit snk tbl row st =
     st\<lparr> db := mdbl_insert snk tbl row (db st), emitted := emitted st @ [(tbl, row)] \<rparr>"

definition logger :: "level \<Rightarrow> string \<Rightarrow> pyval list \<Rightarrow> 'db parser \<Rightarrow> 'db parser" where
  "logger lvl msg args st = st\<lparr> logged := logged st @ [(lvl, msg, args)] \<rparr>"

subsection \<open>\<open>_parse_trace\<close>\<close>

definition execution_data :: "pydict \<Rightarrow> 'db parser \<Rightarrow> pydict" where
  "execution_data obj st =
     [(''execution_id'', PInt (execution_id st)),
      (''server_session'', dict_get obj ''session''),
      (''tag'', dict_get obj ''tag'')]"

definition event_data :: "pydict \<Rightarrow> pyval \<Rightarrow> 'db parser \<Rightarrow> pydict" where
  "event_data obj exec_state st =
     [(''mal_execution_id'', PInt (execution_id st)),
      (''pc'', dict_get obj ''pc''),
      (''execution_state'', exec_state),
      (''clk'', dict_get obj ''clk''),
      (''ctime'', dict_get obj ''ctime''),
      (''thread'', dict_get obj ''thread''),
      (''mal_function'', dict_get obj ''function''),
      (''usec'', dict_get obj ''usec''),
      (''rss'', dict_get obj ''rss''),
      (''type_size'', dict_get obj ''size''),
      (''long_statement'', dict_get obj ''stmt''),
      (''short_statement'', dict_get obj ''short'')]"

definition prereq_data :: "pyval \<Rightarrow> 'db parser \<Rightarrow> pydict" where
  "prereq_data prereq st =
     [(''prerequisite_event'', prereq), (''consequent_event'', PInt (event_id st))]"

text \<open>The loop over the prerequisite list: one insert per element.\<close>

fun prereq_loop :: "'db sink \<Rightarrow> pyval list \<Rightarrow> 'db parser \<Rightarrow> 'db parser" where
  "prereq_loop snk [] st = st"
| "prereq_loop snk (p # ps) st =
     prereq_loop snk ps (emit snk ''prerequisite_events'' (DictRow (prereq_data p st)) st)"

definition variable_data :: "pydict \<Rightarrow> pyval \<Rightarrow> 'db parser \<Rightarrow> pydict" where
  "variable_data var type_id st =
     [(''name'', dict_get var ''name''),
      (''mal_execution_id'', PInt (execution_id st)),
      (''alias'', dict_get var ''alias''),
      (''type_id'', type_id),
      (''is_persistent'', PBool (dict_get var ''kind'' = PStr ''persistent'')),
      (''bid'', dict_get var ''bid''),
      (''var_count'', dict_get var ''count''),
      (''var_size'', dict_get var ''size''),
      (''seqbase'', dict_get var ''seqbase''),
      (''hghbase'', dict_get var ''hghbase''),
      (''eol'', PBool (eq_zero (dict_get var ''eol'')))]"

definition var_list_data :: "pydict \<Rightarrow> pyval \<Rightarrow> 'db parser \<Rightarrow> pydict" where
  "var_list_data var current_var_id st =
     [(''variable_list_index'', dict_get var ''index''),
      (''event_id'', PInt (event_id st)),
      (''variable_id'', current_var_id)]"

text \<open>
  The body of the loop over one variable list, for one entry \<open>var\<close>. \<open>var['name']\<close> raises
  TypeError unless \<open>var\<close> is a dict and KeyError when the key is absent; so does
  \<open>var['type']\<close>, which is read after the counter has been incremented.
\<close>

fun parse_variable :: "'db sink \<Rightarrow> string \<Rightarrow> pyval \<Rightarrow> 'db parser \<Rightarrow> outcome \<times> 'db parser" where
  "parse_variable snk tbl (PDict var) st =
     (case map_of var ''name'' of
        None \<Rightarrow> (Raised KeyError, st)
      | Some name \<Rightarrow>
          (case select_variable_id snk (db st) name of
             [] \<Rightarrow>
               (let st1 = st\<lparr> variable_id := variable_id st + 1 \<rparr> in
                case map_of var ''type'' of
                  None \<Rightarrow> (Raised KeyError, st1)
                | Some ty \<Rightarrow>
                    (case select_type_id snk (db st1) ty of
                       [] \<Rightarrow>
                         (Returned,
                          logger WARNING ''Ignoring variable: {}'' [name]
                            (logger WARNING ''Unkown type: {}'' [ty] st1))
                     | type_id # _ \<Rightarrow>
                         (let st2 = emit snk ''mal_variable''
                                      (DictRow (variable_data var type_id st1)) st1
                          in (Returned,
                              emit snk tbl
                                (DictRow (var_list_data var (PInt (variable_id st2)) st2)) st2))))
           | found # _ \<Rightarrow>
               (Returned, emit snk tbl (DictRow (var_list_data var found st)) st)))"
| "parse_variable snk tbl v st = (Raised TypeError, st)"

fun var_loop :: "'db sink \<Rightarrow> string \<Rightarrow> pyval list \<Rightarrow> 'db parser \<Rightarrow> outcome \<times> 'db parser" where
  "var_loop snk tbl [] st = (Returned, st)"
| "var_loop snk tbl (v # vs) st =
     (case parse_variable snk tbl v st of
        (Returned, st') \<Rightarrow> var_loop snk tbl vs st'
      | (Raised e, st') \<Rightarrow> (Raised e, st'))"

text \<open>
  One round of \<open>for var_list_field in ('ret', 'arg')\<close>; \<open>tbl\<close> is
  \<open>var_list_tables[var_list_field]\<close>, that is \<open>return_variable_list\<close> for \<open>ret\<close> and
  \<open>argument_variable_list\<close> for \<open>arg\<close>.
\<close>

definition parse_var_list ::
  "'db sink \<Rightarrow> pydict \<Rightarrow> string \<Rightarrow> string \<Rightarrow> 'db parser \<Rightarrow> outcome \<times> 'db parser" where
  "parse_var_list snk obj var_list_field tbl st =
     (case iterate (dict_get_default obj var_list_field (PList [])) of
        Inl e \<Rightarrow> (Raised e, st)
      | Inr var_list \<Rightarrow> var_loop snk tbl var_list st)"

text \<open>
  \<open>_parse_trace(json_object)\<close>, for the dict \<open>obj\<close>. The method is reached only through
  \<open>parse_object\<close>, after \<open>json_object.get('source')\<close> has succeeded, so on dicts. State
  changes made before an exception stay: the result carries the state in both cases.
  The method is written in two parts: \<open>parse_trace_event\<close> is its first half (the two
  counters, the execution row, the event row and the prerequisite loop) and \<open>parse_trace\<close>
  runs the two variable lists after it.
\<close>

definition parse_trace_event :: "'db sink \<Rightarrow> pydict \<Rightarrow> 'db parser \<Rightarrow> outcome \<times> 'db parser" where
  "parse_trace_event snk obj st =
     (let st1 = st\<lparr> execution_id := execution_id st + 1 \<rparr>;
          st2 = st1\<lparr> event_id := event_id st1 + 1 \<rparr>;
          st3 = emit snk ''mal_execution'' (DictRow (execution_data obj st2)) st2
      in case states_get (dict_get obj ''state'') of
           Inl e \<Rightarrow> (Raised e, st3)
         | Inr exec_state \<Rightarrow>
             (let st4 = emit snk ''profiler_event'' (DictRow (event_data obj exec_state st3)) st3
              in case iterate (dict_get obj ''prereq'') of
                   Inl e \<Rightarrow> (Raised e, st4)
                 | Inr prereqs \<Rightarrow> (Returned, prereq_loop snk prereqs st4)))"

definition parse_trace :: "'db sink \<Rightarrow> pydict \<Rightarrow> 'db parser \<Rightarrow> outcome \<times> 'db parser" where
  "parse_trace snk obj st =
     (case parse_trace_event snk obj st of
        (Raised e, st5) \<Rightarrow> (Raised e, st5)
      | (Returned, st5) \<Rightarrow>
          (case parse_var_list snk obj ''ret'' ''return_variable_list'' st5 of
             (Raised e, st6) \<Rightarrow> (Raised e, st6)
           | (Returned, st6) \<Rightarrow> parse_var_list snk obj ''arg'' ''argument_variable_list'' st6))"

subsection \<open>\<open>_parse_heartbeat\<close>\<close>

definition data_keys :: "string list" where
  "data_keys = [''server_session'', ''clk'', ''ctime'', ''rss'', ''nvcsw'']"

definition cpuload_data :: "pyval \<Rightarrow> 'db parser \<Rightarrow> pydict" where
  "cpuload_data c st = [(''heartbeat_id'', PInt (heartbeat_id st)), (''val'', c)]"

fun cpuload_loop :: "'db sink \<Rightarrow> pyval list \<Rightarrow> 'db parser \<Rightarrow> 'db parser" where
  "cpuload_loop snk [] st = st"
| "cpuload_loop snk (c # cs) st =
     cpuload_loop snk cs (emit snk ''cpuload'' (DictRow (cpuload_data c st)) st)"

text \<open>
  \<open>_parse_heartbeat(json_object)\<close>. The row is the set comprehension
  \<open>{(k, json_object.get(k)) for k in data_keys}\<close>; building it hashes every tuple, which
  raises TypeError when a value is a list or a dict. \<open>json_object['cpuload']\<close> raises
  KeyError when the key is absent.
\<close>

definition parse_heartbeat :: "'db sink \<Rightarrow> pydict \<Rightarrow> 'db parser \<Rightarrow> outcome \<times> 'db parser" where
  "parse_heartbeat snk obj st =
     (let st1 = st\<lparr> heartbeat_id := heartbeat_id st + 1 \<rparr>
      in if list_all (\<lambda>k. hashable (dict_get obj k)) data_keys then
           (let data = SetRow (set (map (\<lambda>k. (k, dict_get obj k)) data_keys));
                st2 = emit snk ''heartbeat'' data st1
            in case map_of obj ''cpuload'' of
                 None \<Rightarrow> (Raised KeyError, st2)
               | Some cpuload \<Rightarrow>
                   (case iterate cpuload of
                      Inl e \<Rightarrow> (Raised e, st2)
                    | Inr cs \<Rightarrow> (Returned, cpuload_loop snk cs st2)))
         else (Raised TypeError, st1))"

subsection \<open>\<open>parse_object\<close>\<close>

text \<open>
  \<open>dispatcher[source](json_object)\<close>: an unhashable \<open>source\<close> raises TypeError, a key other
  than the two strings raises KeyError, otherwise the normalizer runs.
\<close>

definition dispatch :: "'db sink \<Rightarrow> pyval \<Rightarrow> pydict \<Rightarrow> 'db parser \<Rightarrow> outcome \<times> 'db parser" where
  "dispatch snk source obj st =
     (if \<not> hashable source then (Raised TypeError, st)
      else if source = PStr ''trace'' then parse_trace snk obj st
      else if source = PStr ''heartbeat'' then parse_heartbeat snk obj st
      else (Raised KeyError, st))"

text \<open>
  \<open>parse_object(json_string)\<close>. The decoder \<open>json.loads\<close> is the standard library's and is
  a parameter: \<open>loads s = None\<close> stands for JSONDecodeError. A decoded value that is not a
  dict has no \<open>get\<close> (AttributeError). The \<open>except KeyError\<close> clause covers the dispatch
  and everything the normalizer raises.
\<close>

definition parse_object ::
  "'db sink \<Rightarrow> (string \<Rightarrow> pyval option) \<Rightarrow> string \<Rightarrow> 'db parser \<Rightarrow> outcome \<times> 'db parser" where
  "parse_object snk loads json_string st =
     (case loads json_string of
        None \<Rightarrow>
          (Returned,
           logger WARNING ''Decoder reports %s'' [PStr json_string]
             (logger WARNING json_string []
               (logger WARNING ''W001: Cannot parse object'' [] st)))
      | Some (PDict obj) \<Rightarrow>
          (let source = dict_get obj ''source'' in
           if source = PNone then
             (let st1 = logger ERROR ''Unkown JSON object'' [] st
              in case map_of obj ''source'' of
                   None \<Rightarrow> (Raised KeyError, st1)
                 | Some v \<Rightarrow> (Returned, logger ERROR ''%s'' [v] st1))
           else
             (case dispatch snk source obj st of
                (Raised KeyError, st') \<Rightarrow>
                  (Returned, logger ERROR ''Unkown JSON object kind: %s'' [source] st')
              | r \<Rightarrow> r))
      | Some v \<Rightarrow> (Raised AttributeError, st))"

text \<open>A stream of records: one \<open>parse_object\<close> call after the other, stopping at an exception.\<close>

fun parse_stream ::
  "'db sink \<Rightarrow> (string \<Rightarrow> pyval option) \<Rightarrow> string list \<Rightarrow> 'db parser \<Rightarrow> outcome \<times> 'db parser" where
  "parse_stream snk loads [] st = (Returned, st)"
| "parse_stream snk loads (s # ss) st =
     (case parse_object snk loads s st of
        (Returned, st') \<Rightarrow> parse_stream snk loads ss st'
      | (Raised e, st') \<Rightarrow> (Raised e, st'))"

section \<open>DatabaseManager: the starting limits\<close>

text \<open>\<open>limit_queries\<close> of \<open>get_limits\<close>.\<close>

definition limit_queries :: "string list" where
  "limit_queries =
     [''SELECT MAX(execution_id) FROM mal_execution'',
      ''SELECT MAX(event_id) FROM profiler_event'',
      ''SELECT MAX(variable_id) FROM mal_variable'',
      ''SELECT MAX(heartbeat_id) FROM heartbeat'']"

text \<open>\<open>x[0][0]\<close>\<close>

definition first_cell :: "pyval \<Rightarrow> exn + pyval" where
  "first_cell x = (case index0 x of Inl e \<Rightarrow> Inl e | Inr row \<Rightarrow> index0 row)"

text \<open>\<open>[(x[0][0] or 0) for x in results]\<close>: the first subscript that fails ends the comprehension.\<close>

fun limits_of :: "pyval list \<Rightarrow> exn + pyval list" where
  "limits_of [] = Inr []"
| "limits_of (x # xs) =
     (case first_cell x of
        Inl e \<Rightarrow> Inl e
      | Inr v \<Rightarrow> (case limits_of xs of Inl e \<Rightarrow> Inl e | Inr vs \<Rightarrow> Inr (py_or v (PInt 0) # vs)))"

definition get_limits :: "'db sink \<Rightarrow> 'db \<Rightarrow> exn + pyval list" where
  "get_limits snk d = limits_of (map (execute_query snk d) limit_queries)"

section \<open>A table store\<close>

text \<open>
  A database on which the parser can be run: a table is the list of the rows inserted
  into it, in order. A column that a row does not have reads as NULL (None), and a row
  that is not a dict has no columns. \<open>MAX\<close> is taken over the integers of a column and is
  NULL when there are none.
\<close>

type_synonym store = "string \<Rightarrow> row_data list"

fun column :: "string \<Rightarrow> row_data \<Rightarrow> pyval" where
  "column c (DictRow d) = dict_get d c"
| "column c (SetRow s) = PNone"

definition store_insert :: "string \<Rightarrow> row_data \<Rightarrow> store \<Rightarrow> store" where
  "store_insert tbl row s = s(tbl := s tbl @ [row])"

definition store_select :: "string \<Rightarrow> string \<Rightarrow> store \<Rightarrow> pyval \<Rightarrow> pyval list" where
  "store_select c tbl s name = map (column c) (filter (\<lambda>r. column ''name'' r = name) (s tbl))"

fun sql_max :: "pyval list \<Rightarrow> pyval" where
  "sql_max [] = PNone"
| "sql_max (PInt n # vs) = (case sql_max vs of PInt m \<Rightarrow> PInt (max n m) | _ \<Rightarrow> PInt n)"
| "sql_max (v # vs) = sql_max vs"

definition store_query :: "store \<Rightarrow> string \<Rightarrow> pyval" where
  "store_query s q =
     (case map_of
        [(''SELECT MAX(execution_id) FROM mal_execution'', (''execution_id'', ''mal_execution'')),
         (''SELECT MAX(event_id) FROM profiler_event'', (''event_id'', ''profiler_event'')),
         (''SELECT MAX(variable_id) FROM mal_variable'', (''variable_id'', ''mal_variable'')),
         (''SELECT MAX(heartbeat_id) FROM heartbeat'', (''heartbeat_id'', ''heartbeat''))] q of
        None \<Rightarrow> PNone
      | Some (c, tbl) \<Rightarrow> PList [PList [sql_max (map (column c) (s tbl))]])"

definition store_sink :: "store sink" where
  "store_sink =
     \<lparr> mdbl_insert = store_insert,
       select_variable_id = store_select ''variable_id'' ''mal_variable'',
       select_type_id = store_select ''type_id'' ''mal_type'',
       execute_query = store_query \<rparr>"

section \<open>Notions used to state the properties\<close>

text \<open>The rows a call has emitted: what \<open>emitted\<close> has gained between two states.\<close>

definition new_rows :: "'db parser \<Rightarrow> 'db parser \<Rightarrow> (string \<times> row_data) list" where
  "new_rows st st' = drop (length (emitted st)) (emitted st')"

text \<open>The rows of one table among a list of insert calls, in order.\<close>

definition rows_of :: "string \<Rightarrow> (string \<times> row_data) list \<Rightarrow> row_data list" where
  "rows_of tbl rows = map snd (filter (\<lambda>r. fst r = tbl) rows)"

text \<open>The state enumeration in the words of the specification: start is 0, done is 1,
  pause is 2, anything else is null.\<close>

definition state_enumeration :: "pyval \<Rightarrow> pyval" where
  "state_enumeration v =
     (if v = PStr ''start'' then PInt 0
      else if v = PStr ''done'' then PInt 1
      else if v = PStr ''pause'' then PInt 2
      else PNone)"

text \<open>A variable-list entry that is a dict with a name and a type.\<close>

fun wf_var :: "pyval \<Rightarrow> bool" where
  "wf_var (PDict var) = (map_of var ''name'' \<noteq> None \<and> map_of var ''type'' \<noteq> None)"
| "wf_var v = False"

text \<open>An entry whose name the database already knows when the entry is processed.\<close>

fun is_known :: "'db sink \<Rightarrow> 'db parser \<Rightarrow> pyval \<Rightarrow> bool" where
  "is_known snk st (PDict var) =
     (case map_of var ''name'' of
        None \<Rightarrow> False
      | Some name \<Rightarrow> select_variable_id snk (db st) name \<noteq> [])"
| "is_known snk st v = False"

text \<open>An entry with a new name whose type the catalog does not have.\<close>

fun type_unresolved :: "'db sink \<Rightarrow> 'db parser \<Rightarrow> pyval \<Rightarrow> bool" where
  "type_unresolved snk st (PDict var) =
     (case map_of var ''name'' of
        None \<Rightarrow> False
      | Some name \<Rightarrow>
          select_variable_id snk (db st) name = [] \<and>
          (case map_of var ''type'' of
             None \<Rightarrow> False
           | Some ty \<Rightarrow> select_type_id snk (db st) ty = []))"
| "type_unresolved snk st v = False"

text \<open>
  How many entries of a variable list satisfy \<open>P\<close> at the moment they are processed: the
  state is the one the loop has reached before the entry.
\<close>

fun count_along ::
  "('db parser \<Rightarrow> pyval \<Rightarrow> bool) \<Rightarrow> 'db sink \<Rightarrow> string \<Rightarrow> pyval list \<Rightarrow> 'db parser \<Rightarrow> nat" where
  "count_along P snk tbl [] st = 0"
| "count_along P snk tbl (v # vs) st =
     (if P st v then 1 else 0) + count_along P snk tbl vs (snd (parse_variable snk tbl v st))"

text \<open>The same count over the two lists of a trace record, \<open>ret\<close> first and then \<open>arg\<close>.\<close>

definition count_entries ::
  "('db parser \<Rightarrow> pyval \<Rightarrow> bool) \<Rightarrow> 'db sink \<Rightarrow> pydict \<Rightarrow> pyval list \<Rightarrow> pyval list \<Rightarrow> 'db parser \<Rightarrow> nat" where
  "count_entries P snk obj rets args st =
     (let st5 = snd (parse_trace_event snk obj st);
          st6 = snd (var_loop snk ''return_variable_list'' rets st5)
      in count_along P snk ''return_variable_list'' rets st5 +
         count_along P snk ''argument_variable_list'' args st6)"

text \<open>The normalizer that \<open>parse_object\<close> runs for a record whose discriminator is
  \<open>trace\<close> or \<open>heartbeat\<close>.\<close>

definition normalize :: "'db sink \<Rightarrow> pydict \<Rightarrow> 'db parser \<Rightarrow> outcome \<times> 'db parser" where
  "normalize snk obj st =
     (if dict_get obj ''source'' = PStr ''trace'' then parse_trace snk obj st
      else parse_heartbeat snk obj st)"

section \<open>Sample inputs\<close>

text \<open>A database that holds only the type catalog, with the type \<open>int\<close>.\<close>

definition catalog_db :: store where
  "catalog_db =
     (\<lambda>t. [])(''mal_type'' := [DictRow [(''type_id'', PInt 1), (''name'', PStr ''int'')]])"

text \<open>A database as an earlier session has left it: one row in each of the four tables
  that carry a surrogate id, each with id 1.\<close>

definition persisted_db :: store where
  "persisted_db =
     catalog_db
       (''mal_execution'' :=
          [DictRow [(''execution_id'', PInt 1), (''server_session'', PStr ''s0''), (''tag'', PInt 1)]],
        ''profiler_event'' := [DictRow [(''event_id'', PInt 1), (''mal_execution_id'', PInt 1)]],
        ''mal_variable'' :=
          [DictRow [(''variable_id'', PInt 1), (''name'', PStr ''a''), (''type_id'', PInt 1)]],
        ''heartbeat'' := [DictRow [(''heartbeat_id'', PInt 1), (''server_session'', PStr ''s0'')]])"

text \<open>A database in which the variable \<open>x\<close> is already stored, under id 7.\<close>

definition known_x_db :: store where
  "known_x_db =
     catalog_db
       (''mal_variable'' :=
          [DictRow [(''variable_id'', PInt 7), (''name'', PStr ''x''), (''type_id'', PInt 1)]])"

definition var_x :: pyval where
  "var_x = PDict [(''name'', PStr ''x''), (''type'', PStr ''int''), (''index'', PInt 0)]"

definition var_y :: pyval where
  "var_y = PDict [(''name'', PStr ''y''), (''type'', PStr ''frobnicator''), (''index'', PInt 1)]"

text \<open>A trace record with the arguments \<open>x\<close> of type \<open>int\<close> and \<open>y\<close> of the unknown type
  \<open>frobnicator\<close>, no return values and no prerequisites.\<close>

definition trace_xy :: pydict where
  "trace_xy =
     [(''source'', PStr ''trace''), (''session'', PStr ''s1''), (''tag'', PInt 5),
      (''state'', PStr ''start''), (''pc'', PInt 1),
      (''prereq'', PList []), (''ret'', PList []), (''arg'', PList [var_x, var_y])]"

text \<open>A trace record with the single argument \<open>x\<close> and the prerequisites 41 and 42.\<close>

definition trace_x :: pydict where
  "trace_x =
     [(''source'', PStr ''trace''), (''session'', PStr ''s1''), (''tag'', PInt 6),
      (''state'', PStr ''done''), (''pc'', PInt 2),
      (''prereq'', PList [PInt 41, PInt 42]), (''arg'', PList [var_x])]"

text \<open>A heartbeat record with three cpu-load samples.\<close>

definition heartbeat_3 :: pydict where
  "heartbeat_3 =
     [(''source'', PStr ''heartbeat''), (''session'', PStr ''s1''), (''clk'', PInt 100),
      (''ctime'', PInt 200), (''rss'', PInt 30), (''nvcsw'', PInt 4),
      (''cpuload'', PList [PFloat 0.1, PFloat 0.2, PFloat 0.3])]"

text \<open>A trace record whose only argument has no name.\<close>

definition no_name_trace :: pydict where
  "no_name_trace =
     [(''source'', PStr ''trace''), (''prereq'', PList []),
      (''arg'', PList [PDict [(''type'', PStr ''int'')]])]"

text \<open>
  The decoder on the sample texts used below: on each of them it returns what
  \<open>json.loads\<close> returns. Every other text stands for a malformed one.
\<close>

definition sample_loads :: "string \<Rightarrow> pyval option" where
  \<open>sample_loads =
     map_of
       [(''{}'', PDict []),
        (''[]'', PList []),
        (''{"source": "trace"}'', PDict [(''source'', PStr ''trace'')]),
        (''{"source": "query"}'', PDict [(''source'', PStr ''query'')]),
        (''{"source": "trace", "prereq": [], "arg": [{"type": "int"}]}'', PDict no_name_trace)]\<close>

section \<open>Basic facts\<close>

lemma emit_fields [simp]:
  "emitted (emit snk tbl row st) = emitted st @ [(tbl, row)]"
  "db (emit snk tbl row st) = mdbl_insert snk tbl row (db st)"
  "logged (emit snk tbl row st) = logged st"
  "event_id (emit snk tbl row st) = event_id st"
  "heartbeat_id (emit snk tbl row st) = heartbeat_id st"
  "execution_id (emit snk tbl row st) = execution_id st"
  "variable_id (emit snk tbl row st) = variable_id st"
  by (simp_all add: emit_def)

lemma logger_fields [simp]:
  "logged (logger lvl msg args st) = logged st @ [(lvl, msg, args)]"
  "db (logger lvl msg args st) = db st"
  "emitted (logger lvl msg args st) = emitted st"
  "event_id (logger lvl msg args st) = event_id st"
  "heartbeat_id (logger lvl msg args st) = heartbeat_id st"
  "execution_id (logger lvl msg args st) = execution_id st"
  "variable_id (logger lvl msg args st) = variable_id st"
  by (simp_all add: logger_def)

lemma prereq_loop_emitted:
  "emitted (prereq_loop snk ps st) =
     emitted st @ map (\<lambda>p. (''prerequisite_events'',
        DictRow [(''prerequisite_event'', p), (''consequent_event'', PInt (event_id st))])) ps"
  by (induction ps arbitrary: st) (simp_all add: prereq_data_def)

lemma prereq_loop_fields [simp]:
  "logged (prereq_loop snk ps st) = logged st"
  "event_id (prereq_loop snk ps st) = event_id st"
  "heartbeat_id (prereq_loop snk ps st) = heartbeat_id st"
  "execution_id (prereq_loop snk ps st) = execution_id st"
  "variable_id (prereq_loop snk ps st) = variable_id st"
  by (induction ps arbitrary: st) simp_all

lemma cpuload_loop_emitted:
  "emitted (cpuload_loop snk cs st) =
     emitted st @ map (\<lambda>c. (''cpuload'',
        DictRow [(''heartbeat_id'', PInt (heartbeat_id st)), (''val'', c)])) cs"
  by (induction cs arbitrary: st) (simp_all add: cpuload_data_def)

lemma cpuload_loop_fields [simp]:
  "logged (cpuload_loop snk cs st) = logged st"
  "event_id (cpuload_loop snk cs st) = event_id st"
  "heartbeat_id (cpuload_loop snk cs st) = heartbeat_id st"
  "execution_id (cpuload_loop snk cs st) = execution_id st"
  "variable_id (cpuload_loop snk cs st) = variable_id st"
  by (induction cs arbitrary: st) simp_all

lemma new_rows_append: "emitted st' = emitted st @ rows \<Longrightarrow> new_rows st st' = rows"
  by (simp add: new_rows_def)

lemma rows_of_append [simp]: "rows_of tbl (xs @ ys) = rows_of tbl xs @ rows_of tbl ys"
  by (simp add: rows_of_def)

lemma rows_of_Nil [simp]: "rows_of tbl [] = []"
  by (simp add: rows_of_def)

lemma rows_of_Cons [simp]:
  "rows_of tbl ((t, r) # rows) = (if t = tbl then r # rows_of tbl rows else rows_of tbl rows)"
  by (simp add: rows_of_def)

lemma rows_of_other:
  "list_all (\<lambda>r. fst r = a \<or> fst r = b) rows \<Longrightarrow> tbl \<noteq> a \<Longrightarrow> tbl \<noteq> b \<Longrightarrow> rows_of tbl rows = []"
  by (induction rows) (auto simp: rows_of_def)

lemma parse_variable_rows:
  "\<exists>rows. emitted (snd (parse_variable snk tbl v st)) = emitted st @ rows
          \<and> list_all (\<lambda>r. fst r = ''mal_variable'' \<or> fst r = tbl) rows"
  by (cases v) (auto simp: Let_def split: option.splits list.splits)

lemma parse_variable_counters [simp]:
  "event_id (snd (parse_variable snk tbl v st)) = event_id st"
  "execution_id (snd (parse_variable snk tbl v st)) = execution_id st"
  "heartbeat_id (snd (parse_variable snk tbl v st)) = heartbeat_id st"
  by (cases v; auto simp: Let_def split: option.splits list.splits)+

lemma var_loop_rows:
  "\<exists>rows. emitted (snd (var_loop snk tbl vs st)) = emitted st @ rows
          \<and> list_all (\<lambda>r. fst r = ''mal_variable'' \<or> fst r = tbl) rows"
proof (induction vs arbitrary: st)
  case Nil
  show ?case by simp
next
  case (Cons v vs)
  obtain r st1 where step: "parse_variable snk tbl v st = (r, st1)"
    by (cases "parse_variable snk tbl v st")
  from parse_variable_rows [of snk tbl v st] step
  obtain rows1 where r1: "emitted st1 = emitted st @ rows1"
      "list_all (\<lambda>r. fst r = ''mal_variable'' \<or> fst r = tbl) rows1"
    by auto
  show ?case
  proof (cases r)
    case Returned
    from Cons.IH [of st1] obtain rows2 where r2:
      "emitted (snd (var_loop snk tbl vs st1)) = emitted st1 @ rows2"
      "list_all (\<lambda>r. fst r = ''mal_variable'' \<or> fst r = tbl) rows2"
      by blast
    have "emitted (snd (var_loop snk tbl (v # vs) st)) = emitted st @ (rows1 @ rows2)"
      using step Returned r1 r2 by simp
    moreover have "list_all (\<lambda>r. fst r = ''mal_variable'' \<or> fst r = tbl) (rows1 @ rows2)"
      using r1 r2 by simp
    ultimately show ?thesis by blast
  next
    case (Raised e)
    then show ?thesis using step r1 by auto
  qed
qed

lemma var_loop_counters [simp]:
  "event_id (snd (var_loop snk tbl vs st)) = event_id st"
  "execution_id (snd (var_loop snk tbl vs st)) = execution_id st"
  "heartbeat_id (snd (var_loop snk tbl vs st)) = heartbeat_id st"
proof (induction vs arbitrary: st)
  case Nil
  { case 1 show ?case by simp }
  { case 2 show ?case by simp }
  { case 3 show ?case by simp }
next
  case (Cons v vs)
  { case 1 show ?case
      using Cons.IH(1) [of "snd (parse_variable snk tbl v st)"] parse_variable_counters(1) [of snk tbl v st]
      by (cases "parse_variable snk tbl v st"; auto split: outcome.splits) }
  { case 2 show ?case
      using Cons.IH(2) [of "snd (parse_variable snk tbl v st)"] parse_variable_counters(2) [of snk tbl v st]
      by (cases "parse_variable snk tbl v st"; auto split: outcome.splits) }
  { case 3 show ?case
      using Cons.IH(3) [of "snd (parse_variable snk tbl v st)"] parse_variable_counters(3) [of snk tbl v st]
      by (cases "parse_variable snk tbl v st"; auto split: outcome.splits) }
qed

lemma parse_var_list_rows:
  "\<exists>rows. emitted (snd (parse_var_list snk obj field tbl st)) = emitted st @ rows
          \<and> list_all (\<lambda>r. fst r = ''mal_variable'' \<or> fst r = tbl) rows"
  using var_loop_rows [of snk tbl _ st]
  by (auto simp: parse_var_list_def split: sum.splits)

lemma parse_variable_wf:
  assumes "wf_var v" and "tbl \<noteq> ''mal_variable''"
  shows "\<exists>rows. fst (parse_variable snk tbl v st) = Returned
      \<and> emitted (snd (parse_variable snk tbl v st)) = emitted st @ rows
      \<and> length (rows_of tbl rows) = (if type_unresolved snk st v then 0 else 1)
      \<and> length (rows_of ''mal_variable'' rows) =
          (if type_unresolved snk st v \<or> is_known snk st v then 0 else 1)"
  using assms
  by (cases v) (auto simp: Let_def split: option.splits list.splits)

lemma var_loop_wf:
  assumes "list_all wf_var vs" and "tbl \<noteq> ''mal_variable''"
  shows "\<exists>rows. fst (var_loop snk tbl vs st) = Returned
      \<and> emitted (snd (var_loop snk tbl vs st)) = emitted st @ rows
      \<and> length (rows_of tbl rows) + count_along (type_unresolved snk) snk tbl vs st = length vs
      \<and> length (rows_of ''mal_variable'' rows) + count_along (type_unresolved snk) snk tbl vs st
          + count_along (is_known snk) snk tbl vs st = length vs"
  using assms(1)
proof (induction vs arbitrary: st)
  case Nil
  show ?case by simp
next
  case (Cons v vs)
  from Cons.prems have wfv: "wf_var v" and wfvs: "list_all wf_var vs" by simp_all
  obtain st1 where st1: "st1 = snd (parse_variable snk tbl v st)" by simp
  from parse_variable_wf [OF wfv assms(2), of snk st] st1
  obtain rows1 where r1:
    "fst (parse_variable snk tbl v st) = Returned"
    "emitted st1 = emitted st @ rows1"
    "length (rows_of tbl rows1) = (if type_unresolved snk st v then 0 else 1)"
    "length (rows_of ''mal_variable'' rows1) =
       (if type_unresolved snk st v \<or> is_known snk st v then 0 else 1)"
    by auto
  from Cons.IH [OF wfvs, of st1]
  obtain rows2 where r2:
    "fst (var_loop snk tbl vs st1) = Returned"
    "emitted (snd (var_loop snk tbl vs st1)) = emitted st1 @ rows2"
    "length (rows_of tbl rows2) + count_along (type_unresolved snk) snk tbl vs st1 = length vs"
    "length (rows_of ''mal_variable'' rows2) + count_along (type_unresolved snk) snk tbl vs st1
       + count_along (is_known snk) snk tbl vs st1 = length vs"
    by blast
  have step: "parse_variable snk tbl v st = (Returned, st1)"
    using r1(1) st1 by (cases "parse_variable snk tbl v st") simp
  have loop: "var_loop snk tbl (v # vs) st = var_loop snk tbl vs st1"
    using step by simp
  have excl: "\<not> (type_unresolved snk st v \<and> is_known snk st v)"
    by (cases v) (auto split: option.splits)
  have a: "fst (var_loop snk tbl (v # vs) st) = Returned"
    using loop r2(1) by simp
  have b: "emitted (snd (var_loop snk tbl (v # vs) st)) = emitted st @ (rows1 @ rows2)"
    using loop r1(2) r2(2) by simp
  have c: "length (rows_of tbl (rows1 @ rows2))
             + count_along (type_unresolved snk) snk tbl (v # vs) st = length (v # vs)"
    using r1(3) r2(3) st1 by simp
  have d: "length (rows_of ''mal_variable'' (rows1 @ rows2))
             + count_along (type_unresolved snk) snk tbl (v # vs) st
             + count_along (is_known snk) snk tbl (v # vs) st = length (v # vs)"
    using r1(4) r2(4) st1 excl by auto
  from a b c d show ?case by blast
qed

lemma states_get_hashable: "hashable v \<Longrightarrow> states_get v = Inr (state_enumeration v)"
  by (cases v) (auto simp: states_get_def state_enumeration_def states_def)

lemma unhashable_state_raises:
  "\<not> hashable (dict_get obj ''state'') \<Longrightarrow>
   fst (parse_trace_event snk obj st) = Raised TypeError"
  by (simp add: parse_trace_event_def Let_def states_get_def)

lemma parse_trace_event_counters [simp]:
  "event_id (snd (parse_trace_event snk obj st)) = event_id st + 1"
  "execution_id (snd (parse_trace_event snk obj st)) = execution_id st + 1"
  "heartbeat_id (snd (parse_trace_event snk obj st)) = heartbeat_id st"
  "variable_id (snd (parse_trace_event snk obj st)) = variable_id st"
  by (simp_all add: parse_trace_event_def Let_def split: sum.splits)

lemma parse_trace_event_emitted:
  assumes "hashable (dict_get obj ''state'')"
  shows "emitted (snd (parse_trace_event snk obj st)) =
           emitted st @
           [(''mal_execution'',
             DictRow [(''execution_id'', PInt (execution_id st + 1)),
                      (''server_session'', dict_get obj ''session''),
                      (''tag'', dict_get obj ''tag'')]),
            (''profiler_event'',
             DictRow (event_data obj (state_enumeration (dict_get obj ''state''))
                        (st\<lparr>execution_id := execution_id st + 1\<rparr>)))] @
           (case iterate (dict_get obj ''prereq'') of
              Inl e \<Rightarrow> []
            | Inr ps \<Rightarrow>
                map (\<lambda>p. (''prerequisite_events'',
                      DictRow [(''prerequisite_event'', p),
                               (''consequent_event'', PInt (event_id st + 1))])) ps)"
  using assms
  by (simp add: parse_trace_event_def Let_def states_get_hashable prereq_loop_emitted
        execution_data_def event_data_def split: sum.splits)

lemma parse_trace_var_rows:
  "\<exists>rows. emitted (snd (parse_trace snk obj st)) =
            emitted (snd (parse_trace_event snk obj st)) @ rows
          \<and> list_all (\<lambda>r. fst r = ''mal_variable'' \<or> fst r = ''return_variable_list''
                          \<or> fst r = ''argument_variable_list'') rows"
proof -
  obtain r st5 where ev: "parse_trace_event snk obj st = (r, st5)"
    by (cases "parse_trace_event snk obj st")
  show ?thesis
  proof (cases r)
    case (Raised e)
    then show ?thesis using ev by (simp add: parse_trace_def)
  next
    case Returned
    obtain r6 st6 where ret: "parse_var_list snk obj ''ret'' ''return_variable_list'' st5 = (r6, st6)"
      by (cases "parse_var_list snk obj ''ret'' ''return_variable_list'' st5")
    from parse_var_list_rows [of snk obj "''ret''" "''return_variable_list''" st5] ret
    obtain rows1 where r1: "emitted st6 = emitted st5 @ rows1"
        "list_all (\<lambda>r. fst r = ''mal_variable'' \<or> fst r = ''return_variable_list'') rows1"
      by auto
    show ?thesis
    proof (cases r6)
      case (Raised e)
      have "emitted (snd (parse_trace snk obj st)) = emitted st5 @ rows1"
        using ev Returned ret Raised r1 by (simp add: parse_trace_def)
      moreover have "list_all (\<lambda>r. fst r = ''mal_variable'' \<or> fst r = ''return_variable_list''
                          \<or> fst r = ''argument_variable_list'') rows1"
        using r1(2) by (induction rows1) auto
      ultimately show ?thesis using ev by auto
    next
      case Returned6: Returned
      from parse_var_list_rows [of snk obj "''arg''" "''argument_variable_list''" st6]
      obtain rows2 where r2:
        "emitted (snd (parse_var_list snk obj ''arg'' ''argument_variable_list'' st6)) = emitted st6 @ rows2"
        "list_all (\<lambda>r. fst r = ''mal_variable'' \<or> fst r = ''argument_variable_list'') rows2"
        by blast
      have "emitted (snd (parse_trace snk obj st)) = emitted st5 @ (rows1 @ rows2)"
        using ev Returned ret Returned6 r1 r2 by (simp add: parse_trace_def)
      moreover have "list_all (\<lambda>r. fst r = ''mal_variable'' \<or> fst r = ''return_variable_list''
                          \<or> fst r = ''argument_variable_list'') (rows1 @ rows2)"
        using r1(2) r2(2) by (auto simp: list_all_iff)
      ultimately show ?thesis using ev by auto
    qed
  qed
qed

lemma rows_of_map_same [simp]: "rows_of t (map (\<lambda>p. (t, f p)) ps) = map f ps"
  by (induction ps) simp_all

lemma rows_of_map_other [simp]: "t \<noteq> t' \<Longrightarrow> rows_of t (map (\<lambda>p. (t', f p)) ps) = []"
  by (induction ps) simp_all

lemma rows_of_other3:
  "list_all (\<lambda>r. fst r = a \<or> fst r = b \<or> fst r = c) rows \<Longrightarrow>
   tbl \<noteq> a \<Longrightarrow> tbl \<noteq> b \<Longrightarrow> tbl \<noteq> c \<Longrightarrow> rows_of tbl rows = []"
  by (induction rows) (auto simp: rows_of_def)

lemma parse_var_list_counters [simp]:
  "event_id (snd (parse_var_list snk obj field tbl st)) = event_id st"
  "execution_id (snd (parse_var_list snk obj field tbl st)) = execution_id st"
  "heartbeat_id (snd (parse_var_list snk obj field tbl st)) = heartbeat_id st"
  by (simp_all add: parse_var_list_def split: sum.splits)

lemma parse_trace_counters:
  "event_id (snd (parse_trace snk obj st)) = event_id st + 1"
  "execution_id (snd (parse_trace snk obj st)) = execution_id st + 1"
  "heartbeat_id (snd (parse_trace snk obj st)) = heartbeat_id st"
proof -
  obtain r st5 where ev: "parse_trace_event snk obj st = (r, st5)"
    by (cases "parse_trace_event snk obj st")
  obtain r6 st6 where ret: "parse_var_list snk obj ''ret'' ''return_variable_list'' st5 = (r6, st6)"
    by (cases "parse_var_list snk obj ''ret'' ''return_variable_list'' st5")
  have e5: "event_id st5 = event_id st + 1" "execution_id st5 = execution_id st + 1"
      "heartbeat_id st5 = heartbeat_id st"
    using parse_trace_event_counters [of snk obj st] ev by simp_all
  have e6: "event_id st6 = event_id st5" "execution_id st6 = execution_id st5"
      "heartbeat_id st6 = heartbeat_id st5"
    using parse_var_list_counters [of snk obj "''ret''" "''return_variable_list''" st5] ret by simp_all
  show "event_id (snd (parse_trace snk obj st)) = event_id st + 1"
    using ev ret e5 e6 by (cases r; cases r6; simp add: parse_trace_def)
  show "execution_id (snd (parse_trace snk obj st)) = execution_id st + 1"
    using ev ret e5 e6 by (cases r; cases r6; simp add: parse_trace_def)
  show "heartbeat_id (snd (parse_trace snk obj st)) = heartbeat_id st"
    using ev ret e5 e6 by (cases r; cases r6; simp add: parse_trace_def)
qed

lemma parse_trace_event_returned:
  assumes "hashable (dict_get obj ''state'')" and "iterate (dict_get obj ''prereq'') = Inr ps"
  shows "fst (parse_trace_event snk obj st) = Returned"
  using assms by (simp add: parse_trace_event_def Let_def states_get_hashable)

lemma var_loop_wf_tables:
  assumes "list_all wf_var vs" and "tbl \<noteq> ''mal_variable''"
  shows "\<exists>rows. fst (var_loop snk tbl vs st) = Returned
      \<and> emitted (snd (var_loop snk tbl vs st)) = emitted st @ rows
      \<and> list_all (\<lambda>r. fst r = ''mal_variable'' \<or> fst r = tbl) rows
      \<and> length (rows_of tbl rows) + count_along (type_unresolved snk) snk tbl vs st = length vs
      \<and> length (rows_of ''mal_variable'' rows) + count_along (type_unresolved snk) snk tbl vs st
          + count_along (is_known snk) snk tbl vs st = length vs"
proof -
  from var_loop_wf [OF assms, of snk st] obtain rows where a:
    "fst (var_loop snk tbl vs st) = Returned"
    "emitted (snd (var_loop snk tbl vs st)) = emitted st @ rows"
    "length (rows_of tbl rows) + count_along (type_unresolved snk) snk tbl vs st = length vs"
    "length (rows_of ''mal_variable'' rows) + count_along (type_unresolved snk) snk tbl vs st
          + count_along (is_known snk) snk tbl vs st = length vs"
    by blast
  from var_loop_rows [of snk tbl vs st] obtain rows' where b:
    "emitted (snd (var_loop snk tbl vs st)) = emitted st @ rows'"
    "list_all (\<lambda>r. fst r = ''mal_variable'' \<or> fst r = tbl) rows'"
    by blast
  from a(2) b(1) have "rows' = rows" by simp
  with a b(2) show ?thesis by blast
qed

section \<open>The heartbeat normalizer\<close>

text \<open>
  Claim C8. A heartbeat record whose five scalar fields are hashable and whose \<open>cpuload\<close>
  is a list of K samples is processed without an exception: the heartbeat counter goes up
  by one, and the rows emitted are one row for the table \<open>heartbeat\<close> followed by exactly
  K rows for the table \<open>cpuload\<close>, one per sample in list order, each carrying the new
  heartbeat id.
\<close>

theorem heartbeat_fan_out:
  assumes "list_all (\<lambda>k. hashable (dict_get obj k)) data_keys"
      and "map_of obj ''cpuload'' = Some (PList cs)"
  shows "\<exists>st'. parse_heartbeat snk obj st = (Returned, st')
           \<and> heartbeat_id st' = heartbeat_id st + 1
           \<and> new_rows st st' =
               (''heartbeat'', SetRow (set (map (\<lambda>k. (k, dict_get obj k)) data_keys))) #
               map (\<lambda>c. (''cpuload'',
                     DictRow [(''heartbeat_id'', PInt (heartbeat_id st + 1)), (''val'', c)])) cs"
  using assms
  by (simp add: parse_heartbeat_def Let_def new_rows_def cpuload_loop_emitted)

theorem heartbeat_fan_out_witness:
  "list_all (\<lambda>k. hashable (dict_get heartbeat_3 k)) data_keys
   \<and> map_of heartbeat_3 ''cpuload'' = Some (PList [PFloat 0.1, PFloat 0.2, PFloat 0.3])
   \<and> (\<exists>st'. parse_heartbeat store_sink heartbeat_3 (init catalog_db) = (Returned, st')
           \<and> heartbeat_id st' = heartbeat_id (init catalog_db) + 1
           \<and> new_rows (init catalog_db) st' =
               (''heartbeat'',
                SetRow (set (map (\<lambda>k. (k, dict_get heartbeat_3 k)) data_keys))) #
               map (\<lambda>c. (''cpuload'',
                     DictRow [(''heartbeat_id'', PInt (heartbeat_id (init catalog_db) + 1)),
                              (''val'', c)]))
                 [PFloat 0.1, PFloat 0.2, PFloat 0.3])"
proof -
  have h1: "list_all (\<lambda>k. hashable (dict_get heartbeat_3 k)) data_keys"
    by code_simp
  have h2: "map_of heartbeat_3 ''cpuload'' = Some (PList [PFloat 0.1, PFloat 0.2, PFloat 0.3])"
    by (simp add: heartbeat_3_def)
  from heartbeat_fan_out [OF h1 h2, of store_sink "init catalog_db"] h1 h2
  show ?thesis by blast
qed

section \<open>The trace normalizer: event row and prerequisite edges\<close>

text \<open>
  Claim C7. The state token of a trace record goes through the enumeration start to 0,
  done to 1, pause to 2; any other token, and an absent one, gives null. For a state that
  is absent, null, a string, a number or a boolean the lookup does not raise, and the one
  row the record emits for the table \<open>profiler_event\<close> carries the mapped value in its
  column \<open>execution_state\<close>, whatever happens later in the record.
\<close>

theorem state_token_mapping:
  assumes "hashable (dict_get obj ''state'')"
  shows "states_get (dict_get obj ''state'') = Inr (state_enumeration (dict_get obj ''state''))
       \<and> (\<exists>row. rows_of ''profiler_event'' (new_rows st (snd (parse_trace snk obj st))) = [DictRow row]
              \<and> dict_get row ''execution_state'' = state_enumeration (dict_get obj ''state''))"
proof -
  from parse_trace_var_rows [of snk obj st] obtain rows where rows:
    "emitted (snd (parse_trace snk obj st)) = emitted (snd (parse_trace_event snk obj st)) @ rows"
    "list_all (\<lambda>r. fst r = ''mal_variable'' \<or> fst r = ''return_variable_list''
                          \<or> fst r = ''argument_variable_list'') rows"
    by blast
  have none: "rows_of ''profiler_event'' rows = []"
    using rows(2) by (rule rows_of_other3) simp_all
  let ?row = "event_data obj (state_enumeration (dict_get obj ''state''))
                        (st\<lparr>execution_id := execution_id st + 1\<rparr>)"
  have "rows_of ''profiler_event'' (new_rows st (snd (parse_trace snk obj st))) = [DictRow ?row]"
    using rows(1) none parse_trace_event_emitted [OF assms, of snk st]
    by (simp add: new_rows_def split: sum.splits)
  moreover have "dict_get ?row ''execution_state'' = state_enumeration (dict_get obj ''state'')"
    by (simp add: event_data_def dict_get_def)
  ultimately show ?thesis
    using states_get_hashable [OF assms] by blast
qed

theorem state_token_mapping_witness:
  "hashable (dict_get trace_x ''state'')
   \<and> states_get (dict_get trace_x ''state'') = Inr (PInt 1)
   \<and> (\<exists>row. rows_of ''profiler_event''
               (new_rows (init catalog_db) (snd (parse_trace store_sink trace_x (init catalog_db))))
               = [DictRow row]
            \<and> dict_get row ''execution_state'' = PInt 1)"
proof -
  have h: "hashable (dict_get trace_x ''state'')"
    by code_simp
  have v: "state_enumeration (dict_get trace_x ''state'') = PInt 1"
    by code_simp
  from state_token_mapping [OF h, of "init catalog_db" store_sink] h v
  show ?thesis by simp
qed

text \<open>
  Claim C9. For a trace record whose prerequisite list is \<open>ps\<close>, the rows emitted for the
  table \<open>prerequisite_events\<close> are exactly one row per element of \<open>ps\<close>, in order, with
  that element as prerequisite and the event id allocated for this record as consequent.
  The elements are arbitrary values: nothing is checked about them.
\<close>

theorem prerequisite_edges:
  assumes "hashable (dict_get obj ''state'')"
      and "dict_get obj ''prereq'' = PList ps"
  shows "rows_of ''prerequisite_events'' (new_rows st (snd (parse_trace snk obj st))) =
           map (\<lambda>p. DictRow [(''prerequisite_event'', p),
                             (''consequent_event'', PInt (event_id st + 1))]) ps
       \<and> event_id (snd (parse_trace snk obj st)) = event_id st + 1"
proof -
  from parse_trace_var_rows [of snk obj st] obtain rows where rows:
    "emitted (snd (parse_trace snk obj st)) = emitted (snd (parse_trace_event snk obj st)) @ rows"
    "list_all (\<lambda>r. fst r = ''mal_variable'' \<or> fst r = ''return_variable_list''
                          \<or> fst r = ''argument_variable_list'') rows"
    by blast
  have none: "rows_of ''prerequisite_events'' rows = []"
    using rows(2) by (rule rows_of_other3) simp_all
  have "rows_of ''prerequisite_events'' (new_rows st (snd (parse_trace snk obj st))) =
           map (\<lambda>p. DictRow [(''prerequisite_event'', p),
                             (''consequent_event'', PInt (event_id st + 1))]) ps"
    using rows(1) none parse_trace_event_emitted [OF assms(1), of snk st] assms(2)
    by (simp add: new_rows_def)
  then show ?thesis using parse_trace_counters(1) [of snk obj st] by simp
qed

theorem prerequisite_edges_witness:
  "hashable (dict_get trace_x ''state'')
   \<and> dict_get trace_x ''prereq'' = PList [PInt 41, PInt 42]
   \<and> rows_of ''prerequisite_events''
         (new_rows (init catalog_db) (snd (parse_trace store_sink trace_x (init catalog_db)))) =
       map (\<lambda>p. DictRow [(''prerequisite_event'', p),
                         (''consequent_event'', PInt (event_id (init catalog_db) + 1))])
         [PInt 41, PInt 42]
   \<and> event_id (snd (parse_trace store_sink trace_x (init catalog_db)))
       = event_id (init catalog_db) + 1"
proof -
  have h1: "hashable (dict_get trace_x ''state'')"
    by code_simp
  have h2: "dict_get trace_x ''prereq'' = PList [PInt 41, PInt 42]"
    by code_simp
  from prerequisite_edges [OF h1 h2, of "init catalog_db" store_sink] h1 h2
  show ?thesis by blast
qed

section \<open>The trace normalizer: variables\<close>

text \<open>
  Claim C3, as stated, at a concrete input: the entry \<open>y\<close> of the unknown type
  \<open>frobnicator\<close>, processed by a new parser on the catalog database. The type is not
  resolved, and the variable counter is not what it was before: the id has been consumed.
\<close>

theorem unknown_type_consumes_id_counterexample:
  "type_unresolved store_sink (init catalog_db) var_y
   \<and> variable_id (snd (parse_variable store_sink ''argument_variable_list'' var_y (init catalog_db)))
       \<noteq> variable_id (init catalog_db)"
  by code_simp

text \<open>
  Claim C3, amended. When the name of a variable entry is new and its type name is not
  in the catalog, the entry is skipped without an exception: no row at all is emitted for
  it (no Variable row, no list-entry row), the database is left as it was, two warnings
  are logged, the execution, event and heartbeat counters keep their values, and the
  variable counter has gone up by one.
\<close>

theorem unknown_type_skips_variable:
  assumes "map_of var ''name'' = Some name"
      and "map_of var ''type'' = Some ty"
      and "select_variable_id snk (db st) name = []"
      and "select_type_id snk (db st) ty = []"
  shows "parse_variable snk tbl (PDict var) st =
           (Returned,
            logger WARNING ''Ignoring variable: {}'' [name]
              (logger WARNING ''Unkown type: {}'' [ty] (st\<lparr>variable_id := variable_id st + 1\<rparr>)))
       \<and> emitted (snd (parse_variable snk tbl (PDict var) st)) = emitted st
       \<and> db (snd (parse_variable snk tbl (PDict var) st)) = db st
       \<and> variable_id (snd (parse_variable snk tbl (PDict var) st)) = variable_id st + 1
       \<and> execution_id (snd (parse_variable snk tbl (PDict var) st)) = execution_id st
       \<and> event_id (snd (parse_variable snk tbl (PDict var) st)) = event_id st
       \<and> heartbeat_id (snd (parse_variable snk tbl (PDict var) st)) = heartbeat_id st"
  using assms by (simp add: Let_def)

theorem unknown_type_skips_variable_witness:
  "map_of [(''name'', PStr ''y''), (''type'', PStr ''frobnicator''), (''index'', PInt 1)] ''name''
     = Some (PStr ''y'')
   \<and> map_of [(''name'', PStr ''y''), (''type'', PStr ''frobnicator''), (''index'', PInt 1)] ''type''
     = Some (PStr ''frobnicator'')
   \<and> select_variable_id store_sink (db (init catalog_db)) (PStr ''y'') = []
   \<and> select_type_id store_sink (db (init catalog_db)) (PStr ''frobnicator'') = []
   \<and> emitted (snd (parse_variable store_sink ''argument_variable_list'' var_y (init catalog_db)))
       = emitted (init catalog_db)
   \<and> variable_id (snd (parse_variable store_sink ''argument_variable_list'' var_y (init catalog_db)))
       = variable_id (init catalog_db) + 1"
proof -
  let ?var = "[(''name'', PStr ''y''), (''type'', PStr ''frobnicator''), (''index'', PInt 1)]"
  have h1: "map_of ?var ''name'' = Some (PStr ''y'')"
    by simp
  have h2: "map_of ?var ''type'' = Some (PStr ''frobnicator'')"
    by simp
  have h3: "select_variable_id store_sink (db (init catalog_db)) (PStr ''y'') = []"
    by code_simp
  have h4: "select_type_id store_sink (db (init catalog_db)) (PStr ''frobnicator'') = []"
    by code_simp
  from unknown_type_skips_variable [OF h1 h2 h3 h4, of "''argument_variable_list''"] h1 h2 h3 h4
  show ?thesis unfolding var_y_def by blast
qed

text \<open>
  Claim C6, as stated, at a concrete input: the record with the arguments \<open>x\<close> and \<open>y\<close>
  on a database that already knows \<open>x\<close>. There are N = 2 entries, one of an unknown type
  and one of an already-known name; one list-entry row is produced, not N - 1 minus the
  already-known names, which is 0.
\<close>

theorem list_entries_minus_known_counterexample:
  "count_entries (type_unresolved store_sink) store_sink trace_xy [] [var_x, var_y] (init known_x_db) = 1
   \<and> count_entries (is_known store_sink) store_sink trace_xy [] [var_x, var_y] (init known_x_db) = 1
   \<and> length (rows_of ''return_variable_list''
         (new_rows (init known_x_db) (snd (parse_trace store_sink trace_xy (init known_x_db)))))
     + length (rows_of ''argument_variable_list''
         (new_rows (init known_x_db) (snd (parse_trace store_sink trace_xy (init known_x_db))))) = 1
   \<and> (1::int) \<noteq> int (length [var_x, var_y]) - 1 - 1"
  by code_simp

text \<open>
  Claim C6, amended. Take a trace record whose state is a token, whose prerequisites can
  be iterated and whose N variable-list entries (return values, then arguments) are dicts
  with a name and a type. If exactly one entry has a new name with a type the catalog
  does not have, the record is processed without an exception, its Execution row and its
  Event row are emitted, exactly N - 1 list-entry rows are produced (an entry with an
  already-known name still gets its list-entry row), and the number of new Variable rows
  is N - 1 minus the number of already-known names, hence at most N - 1.
\<close>

theorem unknown_type_isolation:
  assumes state: "hashable (dict_get obj ''state'')"
      and prereq: "iterate (dict_get obj ''prereq'') = Inr ps"
      and rets: "dict_get_default obj ''ret'' (PList []) = PList rets"
      and args: "dict_get_default obj ''arg'' (PList []) = PList args"
      and wf: "list_all wf_var (rets @ args)"
      and one: "count_entries (type_unresolved snk) snk obj rets args st = 1"
  shows "fst (parse_trace snk obj st) = Returned
       \<and> length (rows_of ''mal_execution'' (new_rows st (snd (parse_trace snk obj st)))) = 1
       \<and> length (rows_of ''profiler_event'' (new_rows st (snd (parse_trace snk obj st)))) = 1
       \<and> length (rows_of ''return_variable_list'' (new_rows st (snd (parse_trace snk obj st))))
           + length (rows_of ''argument_variable_list'' (new_rows st (snd (parse_trace snk obj st))))
           = length rets + length args - 1
       \<and> length (rows_of ''mal_variable'' (new_rows st (snd (parse_trace snk obj st))))
           + count_entries (is_known snk) snk obj rets args st
           = length rets + length args - 1
       \<and> length (rows_of ''mal_variable'' (new_rows st (snd (parse_trace snk obj st))))
           \<le> length rets + length args - 1"
proof -
  define st5 where "st5 = snd (parse_trace_event snk obj st)"
  define st6 where "st6 = snd (var_loop snk ''return_variable_list'' rets st5)"
  define st7 where "st7 = snd (var_loop snk ''argument_variable_list'' args st6)"
  have ev: "parse_trace_event snk obj st = (Returned, st5)"
    using parse_trace_event_returned [OF state prereq, of snk st] st5_def
    by (cases "parse_trace_event snk obj st") simp
  from wf have wfr: "list_all wf_var rets" and wfa: "list_all wf_var args" by simp_all
  from var_loop_wf_tables [OF wfr, of "''return_variable_list''" snk st5]
  obtain rows1 where r1:
    "fst (var_loop snk ''return_variable_list'' rets st5) = Returned"
    "emitted st6 = emitted st5 @ rows1"
    "list_all (\<lambda>r. fst r = ''mal_variable'' \<or> fst r = ''return_variable_list'') rows1"
    "length (rows_of ''return_variable_list'' rows1)
       + count_along (type_unresolved snk) snk ''return_variable_list'' rets st5 = length rets"
    "length (rows_of ''mal_variable'' rows1)
       + count_along (type_unresolved snk) snk ''return_variable_list'' rets st5
       + count_along (is_known snk) snk ''return_variable_list'' rets st5 = length rets"
    unfolding st6_def by auto
  from var_loop_wf_tables [OF wfa, of "''argument_variable_list''" snk st6]
  obtain rows2 where r2:
    "fst (var_loop snk ''argument_variable_list'' args st6) = Returned"
    "emitted st7 = emitted st6 @ rows2"
    "list_all (\<lambda>r. fst r = ''mal_variable'' \<or> fst r = ''argument_variable_list'') rows2"
    "length (rows_of ''argument_variable_list'' rows2)
       + count_along (type_unresolved snk) snk ''argument_variable_list'' args st6 = length args"
    "length (rows_of ''mal_variable'' rows2)
       + count_along (type_unresolved snk) snk ''argument_variable_list'' args st6
       + count_along (is_known snk) snk ''argument_variable_list'' args st6 = length args"
    unfolding st7_def by auto
  have ret: "parse_var_list snk obj ''ret'' ''return_variable_list'' st5 = (Returned, st6)"
    using rets r1(1) st6_def
    by (cases "var_loop snk ''return_variable_list'' rets st5") (simp add: parse_var_list_def)
  have arg: "parse_var_list snk obj ''arg'' ''argument_variable_list'' st6 = (Returned, st7)"
    using args r2(1) st7_def
    by (cases "var_loop snk ''argument_variable_list'' args st6") (simp add: parse_var_list_def)
  have res: "parse_trace snk obj st = (Returned, st7)"
    using ev ret arg by (simp add: parse_trace_def)
  let ?head = "[(''mal_execution'',
             DictRow [(''execution_id'', PInt (execution_id st + 1)),
                      (''server_session'', dict_get obj ''session''),
                      (''tag'', dict_get obj ''tag'')]),
            (''profiler_event'',
             DictRow (event_data obj (state_enumeration (dict_get obj ''state''))
                        (st\<lparr>execution_id := execution_id st + 1\<rparr>)))] @
            map (\<lambda>p. (''prerequisite_events'',
                      DictRow [(''prerequisite_event'', p),
                               (''consequent_event'', PInt (event_id st + 1))])) ps"
  have e5: "emitted st5 = emitted st @ ?head"
    using parse_trace_event_emitted [OF state, of snk st] prereq st5_def by simp
  have new: "new_rows st (snd (parse_trace snk obj st)) = ?head @ rows1 @ rows2"
    using res e5 r1(2) r2(2) by (simp add: new_rows_def)
  have z1: "rows_of ''mal_execution'' rows1 = []" "rows_of ''profiler_event'' rows1 = []"
      "rows_of ''argument_variable_list'' rows1 = []"
    using r1(3) by (auto intro: rows_of_other)
  have z2: "rows_of ''mal_execution'' rows2 = []" "rows_of ''profiler_event'' rows2 = []"
      "rows_of ''return_variable_list'' rows2 = []"
    using r2(3) by (auto intro: rows_of_other)
  have cu: "count_along (type_unresolved snk) snk ''return_variable_list'' rets st5
          + count_along (type_unresolved snk) snk ''argument_variable_list'' args st6 = 1"
    using one by (simp add: count_entries_def st5_def st6_def Let_def)
  have ck: "count_entries (is_known snk) snk obj rets args st
          = count_along (is_known snk) snk ''return_variable_list'' rets st5
          + count_along (is_known snk) snk ''argument_variable_list'' args st6"
    by (simp add: count_entries_def st5_def st6_def Let_def)
  have c1: "fst (parse_trace snk obj st) = Returned" using res by simp
  have c2: "length (rows_of ''mal_execution'' (new_rows st (snd (parse_trace snk obj st)))) = 1"
    unfolding new using z1 z2 by simp
  have c3: "length (rows_of ''profiler_event'' (new_rows st (snd (parse_trace snk obj st)))) = 1"
    unfolding new using z1 z2 by simp
  have c4: "length (rows_of ''return_variable_list'' (new_rows st (snd (parse_trace snk obj st))))
           + length (rows_of ''argument_variable_list'' (new_rows st (snd (parse_trace snk obj st))))
           = length rets + length args - 1"
    unfolding new using z1 z2 r1(4) r2(4) cu by simp
  have c5: "length (rows_of ''mal_variable'' (new_rows st (snd (parse_trace snk obj st))))
           + count_entries (is_known snk) snk obj rets args st
           = length rets + length args - 1"
    unfolding new ck using r1(5) r2(5) cu by simp
  from c5 have c6: "length (rows_of ''mal_variable'' (new_rows st (snd (parse_trace snk obj st))))
           \<le> length rets + length args - 1"
    by linarith
  from c1 c2 c3 c4 c5 c6 show ?thesis by blast
qed

theorem unknown_type_isolation_witness:
  "hashable (dict_get trace_xy ''state'')
   \<and> iterate (dict_get trace_xy ''prereq'') = Inr []
   \<and> dict_get_default trace_xy ''ret'' (PList []) = PList []
   \<and> dict_get_default trace_xy ''arg'' (PList []) = PList [var_x, var_y]
   \<and> list_all wf_var ([] @ [var_x, var_y])
   \<and> count_entries (type_unresolved store_sink) store_sink trace_xy [] [var_x, var_y]
         (init catalog_db) = 1
   \<and> fst (parse_trace store_sink trace_xy (init catalog_db)) = Returned
   \<and> length (rows_of ''return_variable_list''
         (new_rows (init catalog_db) (snd (parse_trace store_sink trace_xy (init catalog_db)))))
     + length (rows_of ''argument_variable_list''
         (new_rows (init catalog_db) (snd (parse_trace store_sink trace_xy (init catalog_db)))))
     = length ([] :: pyval list) + length [var_x, var_y] - 1
   \<and> length (rows_of ''mal_variable''
         (new_rows (init catalog_db) (snd (parse_trace store_sink trace_xy (init catalog_db)))))
     \<le> length ([] :: pyval list) + length [var_x, var_y] - 1"
proof -
  have h1: "hashable (dict_get trace_xy ''state'')"
    by code_simp
  have h2: "iterate (dict_get trace_xy ''prereq'') = Inr []"
    by code_simp
  have h3: "dict_get_default trace_xy ''ret'' (PList []) = PList []"
    by code_simp
  have h4: "dict_get_default trace_xy ''arg'' (PList []) = PList [var_x, var_y]"
    by code_simp
  have h5: "list_all wf_var ([] @ [var_x, var_y])"
    by code_simp
  have h6: "count_entries (type_unresolved store_sink) store_sink trace_xy [] [var_x, var_y]
              (init catalog_db) = 1"
    by code_simp
  from unknown_type_isolation [OF h1 h2 h3 h4 h5 h6] h1 h2 h3 h4 h5 h6
  show ?thesis by blast
qed

section \<open>The rows do not carry their surrogate id\<close>

lemma variable_data_no_id: "map_of (variable_data var type_id st) ''variable_id'' = None"
  by (simp add: variable_data_def)

lemma known_name_uses_stored_id:
  assumes "map_of var ''name'' = Some name"
      and "select_variable_id snk (db st) name = found # others"
  shows "parse_variable snk tbl (PDict var) st =
           (Returned, emit snk tbl (DictRow (var_list_data var found st)) st)"
  using assms by simp

text \<open>
  Claim C5, evaluated on the record with the argument \<open>x\<close> and on the heartbeat record
  with three samples, each parsed by a new parser on the catalog database. The Variable
  row has the eleven columns of \<open>variable_data\<close> and no \<open>variable_id\<close>, although the id 1
  was allocated for it and is written into the list-entry row. The Heartbeat row is a set
  of five pairs with no \<open>heartbeat_id\<close>, although the id 1 was allocated and is written
  into the cpuload rows; its \<open>server_session\<close> is None, the record's field being
  \<open>session\<close>.
\<close>

theorem rows_lack_surrogate_id:
  "rows_of ''mal_variable'' (emitted (snd (parse_trace store_sink trace_x (init catalog_db)))) =
     [DictRow
        [(''name'', PStr ''x''), (''mal_execution_id'', PInt 1), (''alias'', PNone),
         (''type_id'', PInt 1), (''is_persistent'', PBool False), (''bid'', PNone),
         (''var_count'', PNone), (''var_size'', PNone), (''seqbase'', PNone),
         (''hghbase'', PNone), (''eol'', PBool False)]]
   \<and> rows_of ''argument_variable_list''
         (emitted (snd (parse_trace store_sink trace_x (init catalog_db)))) =
     [DictRow [(''variable_list_index'', PInt 0), (''event_id'', PInt 1), (''variable_id'', PInt 1)]]
   \<and> dict_get heartbeat_3 ''session'' = PStr ''s1''
   \<and> emitted (snd (parse_heartbeat store_sink heartbeat_3 (init catalog_db))) =
     [(''heartbeat'',
       SetRow {(''server_session'', PNone), (''clk'', PInt 100), (''ctime'', PInt 200),
               (''rss'', PInt 30), (''nvcsw'', PInt 4)}),
      (''cpuload'', DictRow [(''heartbeat_id'', PInt 1), (''val'', PFloat 0.1)]),
      (''cpuload'', DictRow [(''heartbeat_id'', PInt 1), (''val'', PFloat 0.2)]),
      (''cpuload'', DictRow [(''heartbeat_id'', PInt 1), (''val'', PFloat 0.3)])]"
  by code_simp

text \<open>
  Claim C4, evaluated on two records that both have the argument \<open>x\<close>, parsed one after
  the other by a new parser on the catalog database. One Variable row is emitted. The
  first reference resolves to the allocated id 1; the second reads the id back from the
  database, whose row for \<open>x\<close> was inserted without an id, and resolves to None.
\<close>

theorem second_resolution_other_id:
  "rows_of ''argument_variable_list''
     (emitted (snd (parse_trace store_sink trace_x
                      (snd (parse_trace store_sink trace_x (init catalog_db)))))) =
     [DictRow [(''variable_list_index'', PInt 0), (''event_id'', PInt 1), (''variable_id'', PInt 1)],
      DictRow [(''variable_list_index'', PInt 0), (''event_id'', PInt 2), (''variable_id'', PNone)]]
   \<and> length (rows_of ''mal_variable''
         (emitted (snd (parse_trace store_sink trace_x
                          (snd (parse_trace store_sink trace_x (init catalog_db))))))) = 1"
  by code_simp

section \<open>Construction of the parser\<close>

lemma init_counters:
  "execution_id (init d) = 0 \<and> event_id (init d) = 0
   \<and> variable_id (init d) = 0 \<and> heartbeat_id (init d) = 0"
  by (simp add: init_def)

text \<open>
  Claim C1, evaluated in two settings. First, on a database in which an earlier session
  has stored rows with the ids 1: \<open>get_limits\<close> reports the four maxima 1, and a parser
  constructed on this database starts its counters at 0, so the first records it parses
  get the execution id 1, the event id 1, the variable id 1 and the heartbeat id 1 again.
  Second, on the database that one session of this parser itself leaves behind, starting
  from the catalog database: \<open>get_limits\<close> reports the execution maximum 1, and a second
  parser constructed on that database gives its first record the execution id 1 again.
\<close>

theorem new_parser_reuses_persisted_ids:
  "get_limits store_sink persisted_db = Inr [PInt 1, PInt 1, PInt 1, PInt 1]
   \<and> rows_of ''mal_execution''
         (emitted (snd (parse_trace store_sink trace_xy (init persisted_db)))) =
     [DictRow [(''execution_id'', PInt 1), (''server_session'', PStr ''s1''), (''tag'', PInt 5)]]
   \<and> rows_of ''argument_variable_list''
         (emitted (snd (parse_trace store_sink trace_xy (init persisted_db)))) =
     [DictRow [(''variable_list_index'', PInt 0), (''event_id'', PInt 1), (''variable_id'', PInt 1)]]
   \<and> rows_of ''cpuload''
         (emitted (snd (parse_heartbeat store_sink heartbeat_3 (init persisted_db)))) =
     [DictRow [(''heartbeat_id'', PInt 1), (''val'', PFloat 0.1)],
      DictRow [(''heartbeat_id'', PInt 1), (''val'', PFloat 0.2)],
      DictRow [(''heartbeat_id'', PInt 1), (''val'', PFloat 0.3)]]
   \<and> get_limits store_sink (db (snd (parse_trace store_sink trace_xy (init catalog_db)))) =
     Inr [PInt 1, PInt 0, PInt 0, PInt 0]
   \<and> rows_of ''mal_execution''
         (emitted (snd (parse_trace store_sink trace_x
            (init (db (snd (parse_trace store_sink trace_xy (init catalog_db)))))))) =
     [DictRow [(''execution_id'', PInt 1), (''server_session'', PStr ''s1''), (''tag'', PInt 6)]]"
  by code_simp

section \<open>\<open>parse_object\<close>: which records are dropped and which exceptions escape\<close>

lemma dispatch_unrecognized:
  "hashable v \<Longrightarrow> v \<noteq> PStr ''trace'' \<Longrightarrow> v \<noteq> PStr ''heartbeat'' \<Longrightarrow>
   dispatch snk v obj st = (Raised KeyError, st)"
  by (simp add: dispatch_def)

lemma dispatch_recognized:
  "dict_get obj ''source'' = PStr ''trace'' \<or> dict_get obj ''source'' = PStr ''heartbeat'' \<Longrightarrow>
   dispatch snk (dict_get obj ''source'') obj st = normalize snk obj st"
  by (auto simp: dispatch_def normalize_def)

lemma absent_source_raises:
  "loads s = Some (PDict obj) \<Longrightarrow> map_of obj ''source'' = None \<Longrightarrow>
   parse_object snk loads s st = (Raised KeyError, logger ERROR ''Unkown JSON object'' [] st)"
  by (simp add: parse_object_def dict_get_def)

lemma non_object_raises:
  assumes "loads s = Some v" and "\<forall>obj. v \<noteq> PDict obj"
  shows "parse_object snk loads s st = (Raised AttributeError, st)"
  using assms by (cases v) (simp_all add: parse_object_def)

text \<open>
  Claim C2, as stated, at a concrete input: the text \<open>{"source": "trace"}\<close>, a trace
  record without a prerequisite list. \<open>parse_object\<close> does not return normally: the
  TypeError of iterating over None leaves it.
\<close>

theorem parse_object_raises_counterexample:
  \<open>sample_loads ''{"source": "trace"}'' = Some (PDict [(''source'', PStr ''trace'')])
   \<and> fst (parse_object store_sink sample_loads ''{"source": "trace"}'' (init catalog_db))
       = Raised TypeError\<close>
  by code_simp

text \<open>
  Claim C2, amended. \<open>parse_object\<close> returns normally, with something logged, no row
  emitted, the database and the four counters unchanged, in these two cases: the text is
  malformed; or the decoded object has a discriminator that is null or any other scalar
  different from \<open>trace\<close> and \<open>heartbeat\<close>. In both cases the stream continues with the
  next record.
\<close>

theorem unrecognized_records_dropped:
  assumes "loads s = None \<or>
           (\<exists>obj v. loads s = Some (PDict obj) \<and> map_of obj ''source'' = Some v \<and> hashable v
                    \<and> v \<noteq> PStr ''trace'' \<and> v \<noteq> PStr ''heartbeat'')"
  shows "fst (parse_object snk loads s st) = Returned
       \<and> emitted (snd (parse_object snk loads s st)) = emitted st
       \<and> db (snd (parse_object snk loads s st)) = db st
       \<and> execution_id (snd (parse_object snk loads s st)) = execution_id st
       \<and> event_id (snd (parse_object snk loads s st)) = event_id st
       \<and> variable_id (snd (parse_object snk loads s st)) = variable_id st
       \<and> heartbeat_id (snd (parse_object snk loads s st)) = heartbeat_id st
       \<and> length (logged st) < length (logged (snd (parse_object snk loads s st)))
       \<and> parse_stream snk loads (s # ss) st
           = parse_stream snk loads ss (snd (parse_object snk loads s st))"
  using assms
proof
  assume "loads s = None"
  then show ?thesis by (simp add: parse_object_def)
next
  assume "\<exists>obj v. loads s = Some (PDict obj) \<and> map_of obj ''source'' = Some v \<and> hashable v
                    \<and> v \<noteq> PStr ''trace'' \<and> v \<noteq> PStr ''heartbeat''"
  then obtain obj v where h: "loads s = Some (PDict obj)" "map_of obj ''source'' = Some v"
      "hashable v" "v \<noteq> PStr ''trace''" "v \<noteq> PStr ''heartbeat''"
    by blast
  have src: "dict_get obj ''source'' = v" using h(2) by (simp add: dict_get_def)
  show ?thesis
  proof (cases "v = PNone")
    case True
    then show ?thesis using h src by (simp add: parse_object_def)
  next
    case False
    then show ?thesis
      using h src dispatch_unrecognized [OF h(3) h(4) h(5), of snk obj st]
      by (simp add: parse_object_def)
  qed
qed

theorem unrecognized_records_dropped_witness:
  \<open>sample_loads ''{'' = None
   \<and> fst (parse_object store_sink sample_loads ''{'' (init catalog_db)) = Returned
   \<and> emitted (snd (parse_object store_sink sample_loads ''{'' (init catalog_db)))
       = emitted (init catalog_db)
   \<and> sample_loads ''{"source": "query"}'' = Some (PDict [(''source'', PStr ''query'')])
   \<and> fst (parse_object store_sink sample_loads ''{"source": "query"}'' (init catalog_db)) = Returned
   \<and> emitted (snd (parse_object store_sink sample_loads ''{"source": "query"}'' (init catalog_db)))
       = emitted (init catalog_db)\<close>
proof -
  have m: \<open>sample_loads ''{'' = None\<close>
    by code_simp
  have q: \<open>sample_loads ''{"source": "query"}'' = Some (PDict [(''source'', PStr ''query'')])\<close>
    by code_simp
  have hq: \<open>\<exists>obj v. sample_loads ''{"source": "query"}'' = Some (PDict obj)
              \<and> map_of obj ''source'' = Some v \<and> hashable v
              \<and> v \<noteq> PStr ''trace'' \<and> v \<noteq> PStr ''heartbeat''\<close>
    using q by simp
  have a: \<open>fst (parse_object store_sink sample_loads ''{'' (init catalog_db)) = Returned
       \<and> emitted (snd (parse_object store_sink sample_loads ''{'' (init catalog_db)))
           = emitted (init catalog_db)\<close>
    using unrecognized_records_dropped
            [where loads = sample_loads and s = \<open>''{''\<close> and snk = store_sink
               and st = "init catalog_db"] m
    by blast
  have b: \<open>fst (parse_object store_sink sample_loads ''{"source": "query"}'' (init catalog_db))
           = Returned
       \<and> emitted (snd (parse_object store_sink sample_loads ''{"source": "query"}''
                         (init catalog_db)))
           = emitted (init catalog_db)\<close>
    using unrecognized_records_dropped
            [where loads = sample_loads and s = \<open>''{"source": "query"}''\<close>
               and snk = store_sink and st = "init catalog_db"] hq
    by blast
  from a b m q show ?thesis by blast
qed

text \<open>
  Claim C10. For a record whose discriminator is \<open>trace\<close> or \<open>heartbeat\<close>: if its
  normalizer raises KeyError, \<open>parse_object\<close> catches it, logs the record as an unknown
  object kind and returns normally, keeping what the normalizer had done before; if the
  normalizer raises any other exception, \<open>parse_object\<close> raises it too; and if the
  normalizer returns, so does \<open>parse_object\<close>.
\<close>

theorem key_error_caught_others_propagate:
  assumes "loads s = Some (PDict obj)"
      and "dict_get obj ''source'' = PStr ''trace'' \<or> dict_get obj ''source'' = PStr ''heartbeat''"
  shows "(fst (normalize snk obj st) = Raised KeyError \<longrightarrow>
            parse_object snk loads s st =
              (Returned, logger ERROR ''Unkown JSON object kind: %s'' [dict_get obj ''source'']
                           (snd (normalize snk obj st))))
       \<and> (\<forall>e. fst (normalize snk obj st) = Raised e \<and> e \<noteq> KeyError \<longrightarrow>
            parse_object snk loads s st = (Raised e, snd (normalize snk obj st)))
       \<and> (fst (normalize snk obj st) = Returned \<longrightarrow>
            parse_object snk loads s st = (Returned, snd (normalize snk obj st)))"
proof -
  have ne: "dict_get obj ''source'' \<noteq> PNone" using assms(2) by auto
  obtain r st' where n: "normalize snk obj st = (r, st')"
    by (cases "normalize snk obj st")
  have d: "dispatch snk (dict_get obj ''source'') obj st = (r, st')"
    using dispatch_recognized [OF assms(2), of snk st] n by simp
  show ?thesis
  proof (cases r)
    case Returned
    then show ?thesis using assms(1) ne d n by (simp add: parse_object_def)
  next
    case (Raised e)
    then show ?thesis using assms(1) ne d n
      by (cases e) (simp_all add: parse_object_def)
  qed
qed

theorem key_error_caught_others_propagate_witness:
  \<open>sample_loads ''{"source": "trace", "prereq": [], "arg": [{"type": "int"}]}'' =
     Some (PDict no_name_trace)
   \<and> dict_get no_name_trace ''source'' = PStr ''trace''
   \<and> fst (normalize store_sink no_name_trace (init catalog_db)) = Raised KeyError
   \<and> fst (parse_object store_sink sample_loads
            ''{"source": "trace", "prereq": [], "arg": [{"type": "int"}]}'' (init catalog_db))
       = Returned
   \<and> sample_loads ''{"source": "trace"}'' = Some (PDict [(''source'', PStr ''trace'')])
   \<and> fst (normalize store_sink [(''source'', PStr ''trace'')] (init catalog_db)) = Raised TypeError
   \<and> fst (parse_object store_sink sample_loads ''{"source": "trace"}'' (init catalog_db))
       = Raised TypeError\<close>
proof -
  have l1: \<open>sample_loads ''{"source": "trace", "prereq": [], "arg": [{"type": "int"}]}'' =
     Some (PDict no_name_trace)\<close>
    by code_simp
  have s1: "dict_get no_name_trace ''source'' = PStr ''trace''"
    by code_simp
  have n1: "fst (normalize store_sink no_name_trace (init catalog_db)) = Raised KeyError"
    by code_simp
  have l2: \<open>sample_loads ''{"source": "trace"}'' = Some (PDict [(''source'', PStr ''trace'')])\<close>
    by code_simp
  have s2: "dict_get [(''source'', PStr ''trace'')] ''source'' = PStr ''trace''"
    by code_simp
  have n2: "fst (normalize store_sink [(''source'', PStr ''trace'')] (init catalog_db))
              = Raised TypeError"
    by code_simp
  have e: "TypeError \<noteq> KeyError"
    by simp
  have r1: \<open>fst (parse_object store_sink sample_loads
            ''{"source": "trace", "prereq": [], "arg": [{"type": "int"}]}'' (init catalog_db))
       = Returned\<close>
    using key_error_caught_others_propagate
            [where loads = sample_loads and obj = no_name_trace and snk = store_sink
               and st = "init catalog_db"
               and s = \<open>''{"source": "trace", "prereq": [], "arg": [{"type": "int"}]}''\<close>]
          l1 s1 n1
    by simp
  have r2: \<open>fst (parse_object store_sink sample_loads ''{"source": "trace"}'' (init catalog_db))
       = Raised TypeError\<close>
    using key_error_caught_others_propagate
            [where loads = sample_loads and obj = "[(''source'', PStr ''trace'')]"
               and snk = store_sink and st = "init catalog_db"
               and s = \<open>''{"source": "trace"}''\<close>]
          l2 s2 n2 e
    by simp
  from l1 s1 n1 r1 l2 n2 r2 show ?thesis by blast
qed

end
